theory Spec2Isabelle
  imports Complex_Main "HOL-Library.AList"
begin

section \<open>Numbers, constants and errors\<close>


definition HEIGHT :: real where
  "HEIGHT = 800"

definition GROUND_Y :: real where
  "GROUND_Y = HEIGHT - 100"

definition FRICTION :: real where
  "FRICTION = 0.85"

type_synonym rgb = "nat \<times> nat \<times> nat"

definition WHITE :: rgb where
  "WHITE = (255, 255, 255)"

text \<open>The only exception the physics code can raise: a dictionary read of a missing key.\<close>

datatype error = KeyError string

definition then_do :: "error + 'a \<Rightarrow> ('a \<Rightarrow> error + 'b) \<Rightarrow> error + 'b" where
  "then_do m f = (case m of Inl e \<Rightarrow> Inl e | Inr v \<Rightarrow> f v)"

text \<open>\<^verbatim>\<open>d[k]\<close> on a dictionary kept as an insertion-ordered association list.\<close>

definition getitem :: "(string \<times> 'v) list \<Rightarrow> string \<Rightarrow> error + 'v" where
  "getitem d k = (case map_of d k of None \<Rightarrow> Inl (KeyError k) | Some v \<Rightarrow> Inr v)"



section \<open>Joint\<close>

record joint =
  x :: real
  y :: real
  vx :: real
  vy :: real
  name :: string
  angle_limits :: "(real \<times> real) option"

text \<open>\<^verbatim>\<open>Joint.__init__(x, y, name, angle_limits)\<close>\<close>

definition Joint :: "real \<Rightarrow> real \<Rightarrow> string \<Rightarrow> (real \<times> real) option \<Rightarrow> joint" where
  "Joint x0 y0 nm limits =
     \<lparr>x = x0, y = y0, vx = 0, vy = 0, name = nm, angle_limits = limits\<rparr>"

text \<open>\<^verbatim>\<open>Joint.update(dt)\<close>, statement by statement.\<close>

definition Joint_update :: "real \<Rightarrow> joint \<Rightarrow> joint" where
  "Joint_update dt j =
     (let j1 = j\<lparr>vx := vx j * 0.95\<rparr>;
          j2 = j1\<lparr>vy := vy j1 * 0.95\<rparr>;
          j3 = j2\<lparr>x := x j2 + vx j2 * dt\<rparr>;
          j4 = j3\<lparr>y := y j3 + vy j3 * dt\<rparr>
      in if y j4 > GROUND_Y then
           (let j5 = j4\<lparr>y := GROUND_Y\<rparr>;
                j6 = j5\<lparr>vy := 0\<rparr>
            in j6\<lparr>vx := vx j6 * FRICTION\<rparr>)
         else j4)"


section \<open>The object store\<close>

text \<open>
  Joints are mutable objects shared by the bones that end in them and by the skeleton's
  dictionary. A joint object is identified by a reference; the store maps every
  reference to the current state of its object. A method call on the object behind a
  reference rewrites the store at that reference only.
\<close>

type_synonym ref = nat

type_synonym heap = "ref \<Rightarrow> joint"

definition on :: "ref \<Rightarrow> (joint \<Rightarrow> joint) \<Rightarrow> heap \<Rightarrow> heap" where
  "on r f h = h(r := f (h r))"

section \<open>Bone\<close>

record bone =
  joint1 :: ref
  joint2 :: ref
  rest_length :: real
  name :: string
  mass :: real
  color :: rgb

text \<open>\<^verbatim>\<open>Bone.calculate_distance\<close> reads only the two joints of the bone.\<close>

definition calculate_distance :: "ref \<Rightarrow> ref \<Rightarrow> heap \<Rightarrow> real" where
  "calculate_distance j1 j2 h =
     (let dx = x (h j2) - x (h j1);
          dy = y (h j2) - y (h j1)
      in sqrt (dx * dx + dy * dy))"

text \<open>
  \<^verbatim>\<open>Bone.__init__(joint1, joint2, mass, length=None, name="", color=WHITE)\<close>. The
  rest length is \<^verbatim>\<open>length if length else self.calculate_distance()\<close>: the test is
  Python's truth value of \<^verbatim>\<open>length\<close>, which is false for \<^verbatim>\<open>None\<close> and for the
  number zero.
\<close>

definition truthy :: "real option \<Rightarrow> bool" where
  "truthy v = (case v of None \<Rightarrow> False | Some r \<Rightarrow> r \<noteq> 0)"

definition Bone :: "ref \<Rightarrow> ref \<Rightarrow> real \<Rightarrow> real option \<Rightarrow> string \<Rightarrow> rgb \<Rightarrow> heap \<Rightarrow> bone" where
  "Bone j1 j2 m len nm col h =
     \<lparr>joint1 = j1, joint2 = j2,
      rest_length = (if truthy len then the len else calculate_distance j1 j2 h),
      name = nm, mass = m, color = col\<rparr>"

text \<open>\<^verbatim>\<open>Bone.apply_length_constraint\<close>: the four assignments run in the source's order.\<close>

definition apply_length_constraint :: "bone \<Rightarrow> heap \<Rightarrow> heap" where
  "apply_length_constraint b h =
     (let dx = x (h (joint2 b)) - x (h (joint1 b));
          dy = y (h (joint2 b)) - y (h (joint1 b));
          current_length = sqrt (dx * dx + dy * dy)
      in if current_length > 0 then
           (let difference = current_length - rest_length b;
                percent = difference / current_length / 2;
                offset_x = dx * percent;
                offset_y = dy * percent;
                h1 = on (joint1 b) (\<lambda>j. j\<lparr>x := x j + offset_x\<rparr>) h;
                h2 = on (joint1 b) (\<lambda>j. j\<lparr>y := y j + offset_y\<rparr>) h1;
                h3 = on (joint2 b) (\<lambda>j. j\<lparr>x := x j - offset_x\<rparr>) h2
            in on (joint2 b) (\<lambda>j. j\<lparr>y := y j - offset_y\<rparr>) h3)
         else h)"





section \<open>HumanSkeleton\<close>

text \<open>
  The skeleton object: its attributes, the dictionary \<^verbatim>\<open>joints\<close> from joint names to
  joint objects (references, in insertion order), the list \<^verbatim>\<open>bones\<close>, and the store
  holding the joint objects it reaches. Bones are never mutated after their construction,
  so the list holds them by value.
\<close>

record skeleton =
  scale :: real
  head_size :: real
  torso_length :: real
  upper_arm_length :: real
  lower_arm_length :: real
  upper_leg_length :: real
  lower_leg_length :: real
  foot_length :: real
  body_mass :: real
  joints :: "(string \<times> ref) list"
  bones :: "bone list"
  walking :: bool
  walk_cycle_time :: real
  walk_speed :: real
  step_length :: real
  standing_balance_force :: real
  posture_force :: real
  heap :: heap

text \<open>
  \<^verbatim>\<open>self.joints[key] = Joint(...)\<close>: a new joint object is stored under a reference
  of its own and the dictionary entry is set to that reference.
\<close>

definition new_joint :: "string \<Rightarrow> ref \<Rightarrow> joint \<Rightarrow> skeleton \<Rightarrow> skeleton" where
  "new_joint key r j s = s\<lparr>joints := AList.update key r (joints s), heap := (heap s)(r := j)\<rparr>"

text \<open>
  \<^verbatim>\<open>HumanSkeleton.create_joints(center_x, center_y)\<close>: nineteen assignments, in the
  source's order; the n-th joint object constructed has the reference n.
\<close>

definition create_joints :: "real \<Rightarrow> real \<Rightarrow> skeleton \<Rightarrow> skeleton" where
  "create_joints center_x center_y s =
     foldl (\<lambda>s' (r, key, j). new_joint key r j s') s
       [(0, ''head'', Joint center_x (center_y - torso_length s / 2 - head_size s) ''head'' None),
        (1, ''neck'', Joint center_x (center_y - torso_length s / 2) ''neck''
              (Some (- pi / 16, pi / 16))),
        (2, ''chest'', Joint center_x (center_y - torso_length s / 4) ''chest''
              (Some (- pi / 6, pi / 6))),
        (3, ''waist'', Joint center_x center_y ''waist'' (Some (- pi / 6, pi / 6))),
        (4, ''pelvis'', Joint center_x (center_y + torso_length s / 4) ''pelvis'' None),
        (5, ''left_shoulder'', Joint (center_x - 15) (center_y - torso_length s / 4)
              ''left_shoulder'' (Some (- pi / 2, pi))),
        (6, ''left_elbow'', Joint (center_x - 15)
              (center_y - torso_length s / 4 + upper_arm_length s)
              ''left_elbow'' (Some (- pi / 6, pi * 5 / 6))),
        (7, ''left_hand'', Joint (center_x - 15)
              (center_y - torso_length s / 4 + upper_arm_length s + lower_arm_length s)
              ''left_hand'' (Some (- pi / 3, pi / 3))),
        (8, ''right_shoulder'', Joint (center_x + 15) (center_y - torso_length s / 4)
              ''right_shoulder'' (Some (- pi, pi / 2))),
        (9, ''right_elbow'', Joint (center_x + 15)
              (center_y - torso_length s / 4 + upper_arm_length s)
              ''right_elbow'' (Some (- pi * 5 / 6, pi / 6))),
        (10, ''right_hand'', Joint (center_x + 15)
              (center_y - torso_length s / 4 + upper_arm_length s + lower_arm_length s)
              ''right_hand'' (Some (- pi / 3, pi / 3))),
        (11, ''left_hip'', Joint (center_x - 10) (center_y + torso_length s / 4)
              ''left_hip'' (Some (- pi / 3, pi / 3))),
        (12, ''left_knee'', Joint (center_x - 10)
              (center_y + torso_length s / 4 + upper_leg_length s)
              ''left_knee'' (Some (- pi * 2 / 3, 0))),
        (13, ''left_ankle'', Joint (center_x - 10)
              (center_y + torso_length s / 4 + upper_leg_length s + lower_leg_length s)
              ''left_ankle'' (Some (- pi / 3, pi / 3))),
        (14, ''left_foot'', Joint (center_x - 10 + foot_length s / 2)
              (center_y + torso_length s / 4 + upper_leg_length s + lower_leg_length s)
              ''left_foot'' None),
        (15, ''right_hip'', Joint (center_x + 10) (center_y + torso_length s / 4)
              ''right_hip'' (Some (- pi / 3, pi / 3))),
        (16, ''right_knee'', Joint (center_x + 10)
              (center_y + torso_length s / 4 + upper_leg_length s)
              ''right_knee'' (Some (- pi * 2 / 3, 0))),
        (17, ''right_ankle'', Joint (center_x + 10)
              (center_y + torso_length s / 4 + upper_leg_length s + lower_leg_length s)
              ''right_ankle'' (Some (- pi / 3, pi / 3))),
        (18, ''right_foot'', Joint (center_x + 10 + foot_length s / 2)
              (center_y + torso_length s / 4 + upper_leg_length s + lower_leg_length s)
              ''right_foot'' None)]"

text \<open>The table of \<^verbatim>\<open>HumanSkeleton.calculate_segment_mass\<close>, as the source lists it.\<close>

definition mass_percentages :: "(string \<times> real) list" where
  "mass_percentages =
     [(''head'', 0.081), (''neck'', 0.014),
      (''upper_spine'', 0.158), (''mid_spine'', 0.102), (''lower_spine'', 0.097),
      (''left_clavicle'', 0.028), (''right_clavicle'', 0.028),
      (''left_upper_arm'', 0.028), (''right_upper_arm'', 0.028),
      (''left_lower_arm'', 0.022), (''right_lower_arm'', 0.022),
      (''left_pelvis'', 0.100), (''right_pelvis'', 0.100),
      (''left_upper_leg'', 0.100), (''right_upper_leg'', 0.100),
      (''left_lower_leg'', 0.0465), (''right_lower_leg'', 0.0465),
      (''left_foot'', 0.0145), (''right_foot'', 0.0145)]"

text \<open>\<^verbatim>\<open>mass_percentages.get(segment_name, 0.01)\<close> times the body mass.\<close>

definition calculate_segment_mass :: "skeleton \<Rightarrow> string \<Rightarrow> real" where
  "calculate_segment_mass s segment_name =
     body_mass s * (case map_of mass_percentages segment_name of None \<Rightarrow> 0.01 | Some p \<Rightarrow> p)"

text \<open>The helper \<^verbatim>\<open>create_bone\<close> local to \<^verbatim>\<open>HumanSkeleton.create_bones\<close>.\<close>

definition create_bone :: "skeleton \<Rightarrow> ref \<Rightarrow> ref \<Rightarrow> string \<Rightarrow> rgb \<Rightarrow> bone" where
  "create_bone s j1 j2 nm col =
     (let dx = x (heap s j2) - x (heap s j1);
          dy = y (heap s j2) - y (heap s j1);
          len = sqrt (dx * dx + dy * dy);
          m = calculate_segment_mass s nm
      in Bone j1 j2 m (Some len) nm col (heap s))"

text \<open>
  One statement
  \<^verbatim>\<open>self.bones.append(create_bone(self.joints[k1], self.joints[k2], name))\<close>.
\<close>

definition append_bone :: "string \<Rightarrow> string \<Rightarrow> string \<Rightarrow> skeleton \<Rightarrow> error + skeleton" where
  "append_bone k1 k2 nm s =
     then_do (getitem (joints s) k1) (\<lambda>j1.
     then_do (getitem (joints s) k2) (\<lambda>j2.
       Inr (s\<lparr>bones := bones s @ [create_bone s j1 j2 nm WHITE]\<rparr>)))"

text \<open>\<^verbatim>\<open>HumanSkeleton.create_bones\<close>: eighteen such statements, in the source's order.\<close>

definition bone_plan :: "(string \<times> string \<times> string) list" where
  "bone_plan =
     [(''head'', ''neck'', ''neck''),
      (''neck'', ''chest'', ''upper_spine''),
      (''chest'', ''waist'', ''mid_spine''),
      (''waist'', ''pelvis'', ''lower_spine''),
      (''chest'', ''left_shoulder'', ''left_clavicle''),
      (''left_shoulder'', ''left_elbow'', ''left_upper_arm''),
      (''left_elbow'', ''left_hand'', ''left_lower_arm''),
      (''chest'', ''right_shoulder'', ''right_clavicle''),
      (''right_shoulder'', ''right_elbow'', ''right_upper_arm''),
      (''right_elbow'', ''right_hand'', ''right_lower_arm''),
      (''pelvis'', ''left_hip'', ''left_pelvis''),
      (''left_hip'', ''left_knee'', ''left_upper_leg''),
      (''left_knee'', ''left_ankle'', ''left_lower_leg''),
      (''left_ankle'', ''left_foot'', ''left_foot''),
      (''pelvis'', ''right_hip'', ''right_pelvis''),
      (''right_hip'', ''right_knee'', ''right_upper_leg''),
      (''right_knee'', ''right_ankle'', ''right_lower_leg''),
      (''right_ankle'', ''right_foot'', ''right_foot'')]"

definition create_bones :: "skeleton \<Rightarrow> error + skeleton" where
  "create_bones s =
     foldl (\<lambda>r (k1, k2, nm). then_do r (append_bone k1 k2 nm)) (Inr s) bone_plan"

text \<open>
  \<^verbatim>\<open>HumanSkeleton.__init__(x, y, scale)\<close>. The attributes assigned after the two
  construction calls (\<^verbatim>\<open>walking\<close>, \<^verbatim>\<open>walk_cycle_time\<close>, \<^verbatim>\<open>walk_speed\<close>,
  \<^verbatim>\<open>step_length\<close> and the two gains) are read by neither call, so the record carries
  them from the start. A new skeleton reaches no joint object but the ones it creates.
\<close>

definition blank_store :: heap where
  "blank_store = (\<lambda>r. Joint 0 0 [] None)"

definition attributes :: "real \<Rightarrow> skeleton" where
  "attributes sc =
     \<lparr>scale = sc,
      head_size = 20 * sc,
      torso_length = 120 * sc,
      upper_arm_length = 60 * sc,
      lower_arm_length = 55 * sc,
      upper_leg_length = 80 * sc,
      lower_leg_length = 75 * sc,
      foot_length = 25 * sc,
      body_mass = 70,
      joints = [],
      bones = [],
      walking = False,
      walk_cycle_time = 0,
      walk_speed = 2,
      step_length = 40 * sc,
      standing_balance_force = 100,
      posture_force = 50,
      heap = blank_store\<rparr>"

definition HumanSkeleton :: "real \<Rightarrow> real \<Rightarrow> real \<Rightarrow> error + skeleton" where
  "HumanSkeleton x0 y0 sc = create_bones (create_joints x0 y0 (attributes sc))"



definition stop_walking :: "skeleton \<Rightarrow> skeleton" where
  "stop_walking s = s\<lparr>walking := False\<rparr>"












section \<open>Observations used by the statements\<close>

text \<open>The dictionary \<^verbatim>\<open>joints\<close> of a newly built skeleton.\<close>

definition joint_table :: "(string \<times> ref) list" where
  "joint_table =
     [(''head'', 0), (''neck'', 1), (''chest'', 2), (''waist'', 3), (''pelvis'', 4),
      (''left_shoulder'', 5), (''left_elbow'', 6), (''left_hand'', 7),
      (''right_shoulder'', 8), (''right_elbow'', 9), (''right_hand'', 10),
      (''left_hip'', 11), (''left_knee'', 12), (''left_ankle'', 13), (''left_foot'', 14),
      (''right_hip'', 15), (''right_knee'', 16), (''right_ankle'', 17), (''right_foot'', 18)]"

text \<open>Both joint names of an entry of the bone plan are keys of the dictionary.\<close>

definition resolved :: "skeleton \<Rightarrow> string \<times> string \<times> string \<Rightarrow> bool" where
  "resolved s e =
     (case e of (k1, k2, nm) \<Rightarrow> map_of (joints s) k1 \<noteq> None \<and> map_of (joints s) k2 \<noteq> None)"

text \<open>The bone an entry of the bone plan appends when both names are keys.\<close>

definition planned_bone :: "skeleton \<Rightarrow> string \<times> string \<times> string \<Rightarrow> bone" where
  "planned_bone s e =
     (case e of (k1, k2, nm) \<Rightarrow>
        create_bone s (the (map_of (joints s) k1)) (the (map_of (joints s) k2)) nm WHITE)"










text \<open>
  What the constructor establishes and no method changes afterwards: the dictionary is the
  one of a newly built skeleton, the bones carry, in order, the names of the bone plan,
  and the two gains of the balance controller are 100 and 50.
\<close>

definition as_built :: "skeleton \<Rightarrow> bool" where
  "as_built s \<longleftrightarrow>
     joints s = joint_table
     \<and> map bone.name (bones s) = map (\<lambda>(k1, k2, nm). nm) bone_plan
     \<and> standing_balance_force s = 100 \<and> posture_force s = 50"


text \<open>
  A bone of rest length 3 between a joint at the origin and a joint at \<open>(3, 4)\<close>, at
  distance 5: stretched by 2.
\<close>

definition stretched_store :: heap where
  "stretched_store = blank_store(5 := Joint 0 0 ''a'' None, 6 := Joint 3 4 ''b'' None)"

definition stretched_bone :: bone where
  "stretched_bone = Bone 5 6 1 (Some 3) ''bone'' WHITE stretched_store"

section \<open>Joint integration\<close>

text \<open>
  Claim C2. For every joint and every \<open>dt\<close>, integration multiplies both velocity
  components by 0.95 whatever \<open>dt\<close> is, then adds velocity times \<open>dt\<close> to the position;
  if the new \<open>y\<close> exceeds the ground line, \<open>y\<close> becomes \<open>GROUND_Y\<close>, the vertical
  velocity becomes 0 and the horizontal velocity is multiplied by 0.85. Hence after
  every call the joint satisfies \<open>y \<le> GROUND_Y\<close>.
\<close>

theorem integrate_ground_clamp:
  "Joint_update dt j =
     (let vx' = vx j * 0.95;
          vy' = vy j * 0.95;
          x' = x j + vx' * dt;
          y' = y j + vy' * dt
      in if y' > GROUND_Y
         then j\<lparr>x := x', y := GROUND_Y, vx := vx' * 0.85, vy := 0\<rparr>
         else j\<lparr>x := x', y := y', vx := vx', vy := vy'\<rparr>)
   \<and> y (Joint_update dt j) \<le> GROUND_Y"
  by (simp add: Joint_update_def Let_def FRICTION_def)

text \<open>
  A joint one unit above the ground line, falling at 200 units per second, integrated
  over a tenth of a second: it is clamped to the ground line and slowed by friction.
\<close>

theorem integrate_ground_clamp_witness:
  "Joint_update (1 / 10)
     \<lparr>x = 0, y = 699, vx = 100, vy = 200, name = ''left_foot'', angle_limits = None\<rparr> =
     \<lparr>x = 19 / 2, y = 700, vx = 323 / 4, vy = 0, name = ''left_foot'', angle_limits = None\<rparr>
   \<and> y (Joint_update (1 / 10)
        \<lparr>x = 0, y = 699, vx = 100, vy = 200, name = ''left_foot'', angle_limits = None\<rparr>)
      \<le> GROUND_Y"
  using integrate_ground_clamp
    [of "1 / 10" "\<lparr>x = 0, y = 699, vx = 100, vy = 200, name = ''left_foot'', angle_limits = None\<rparr>"]
  by (simp add: GROUND_Y_def HEIGHT_def)

section \<open>The distance constraint\<close>

lemma four_moves:
  "j1 \<noteq> j2 \<Longrightarrow>
   on j2 (\<lambda>j. j\<lparr>y := y j - oy\<rparr>) (on j2 (\<lambda>j. j\<lparr>x := x j - ox\<rparr>)
     (on j1 (\<lambda>j. j\<lparr>y := y j + oy\<rparr>) (on j1 (\<lambda>j. j\<lparr>x := x j + ox\<rparr>) h))) =
   h(j1 := (h j1)\<lparr>x := x (h j1) + ox, y := y (h j1) + oy\<rparr>,
     j2 := (h j2)\<lparr>x := x (h j2) - ox, y := y (h j2) - oy\<rparr>)"
  by (auto simp: on_def fun_eq_iff)

text \<open>
  The closed form of one application. When the current distance is not zero the two
  references are different objects, so the two moves do not interfere.
\<close>

lemma length_constraint_closed_form:
  "apply_length_constraint b h =
     (let j1 = joint1 b;
          j2 = joint2 b;
          dx = x (h j2) - x (h j1);
          dy = y (h j2) - y (h j1);
          L = sqrt (dx * dx + dy * dy);
          k = (L - rest_length b) / (2 * L)
      in if L = 0 then h
         else h(j1 := (h j1)\<lparr>x := x (h j1) + k * dx, y := y (h j1) + k * dy\<rparr>,
                j2 := (h j2)\<lparr>x := x (h j2) - k * dx, y := y (h j2) - k * dy\<rparr>))"
proof -
  define dx where "dx = x (h (joint2 b)) - x (h (joint1 b))"
  define dy where "dy = y (h (joint2 b)) - y (h (joint1 b))"
  define L where "L = sqrt (dx * dx + dy * dy)"
  define k where "k = (L - rest_length b) / (2 * L)"
  have L0: "L \<ge> 0" by (simp add: L_def)
  have pk: "(L - rest_length b) / L / 2 = k" by (simp add: k_def)
  have code: "apply_length_constraint b h =
      (if L > 0 then
         on (joint2 b) (\<lambda>j. j\<lparr>y := y j - dy * k\<rparr>) (on (joint2 b) (\<lambda>j. j\<lparr>x := x j - dx * k\<rparr>)
           (on (joint1 b) (\<lambda>j. j\<lparr>y := y j + dy * k\<rparr>)
             (on (joint1 b) (\<lambda>j. j\<lparr>x := x j + dx * k\<rparr>) h)))
       else h)"
    unfolding apply_length_constraint_def Let_def dx_def [symmetric] dy_def [symmetric]
      L_def [symmetric] pk ..
  show ?thesis
  proof (cases "L = 0")
    case True
    then show ?thesis
      unfolding code Let_def dx_def [symmetric] dy_def [symmetric] L_def [symmetric] by simp
  next
    case False
    then have pos: "L > 0" using L0 by simp
    have "joint1 b \<noteq> joint2 b"
    proof
      assume "joint1 b = joint2 b"
      then have "dx = 0" "dy = 0" by (simp_all add: dx_def dy_def)
      then show False using False by (simp add: L_def)
    qed
    then show ?thesis
      unfolding code Let_def dx_def [symmetric] dy_def [symmetric] L_def [symmetric]
        k_def [symmetric]
      using pos False by (simp add: four_moves mult.commute)
  qed
qed

text \<open>
  Claim C3. With \<open>L\<close> the current distance of the two joints of a bone, \<open>r\<close> its
  rest length and \<open>(dx, dy)\<close> the position of joint2 minus the position of joint1: when
  \<open>L\<close> is zero one application of the distance constraint leaves the whole store, so
  both joints, unchanged; otherwise it moves joint1 by \<open>((L - r) / (2 L)) (dx, dy)\<close> and
  joint2 by the opposite amount, an equal split in which the mass of the bone plays
  no part, and nothing else changes.
\<close>

theorem length_constraint_step:
  "apply_length_constraint b h =
     (let j1 = joint1 b;
          j2 = joint2 b;
          dx = x (h j2) - x (h j1);
          dy = y (h j2) - y (h j1);
          L = sqrt (dx * dx + dy * dy);
          k = (L - rest_length b) / (2 * L)
      in if L = 0 then h
         else h(j1 := (h j1)\<lparr>x := x (h j1) + k * dx, y := y (h j1) + k * dy\<rparr>,
                j2 := (h j2)\<lparr>x := x (h j2) - k * dx, y := y (h j2) - k * dy\<rparr>))"
  by (rule length_constraint_closed_form)

lemma stretched_facts:
  "joint1 stretched_bone = 5" "joint2 stretched_bone = 6" "rest_length stretched_bone = 3"
  "stretched_store 5 = Joint 0 0 ''a'' None" "stretched_store 6 = Joint 3 4 ''b'' None"
  by (simp_all add: stretched_bone_def stretched_store_def Bone_def truthy_def)

text \<open>
  On the stretched bone \<open>L = 5\<close> and \<open>(L - r) / (2 L) = 1/5\<close>: the first joint moves
  by \<open>(3/5, 4/5)\<close>, the second by the opposite, and their distance becomes 3.
\<close>

theorem length_constraint_step_witness:
  "apply_length_constraint stretched_bone stretched_store =
     stretched_store(5 := Joint (3 / 5) (4 / 5) ''a'' None,
                     6 := Joint (12 / 5) (16 / 5) ''b'' None)"
  using length_constraint_step [of stretched_bone stretched_store]
  unfolding Let_def stretched_facts
  by (simp add: Joint_def)






text \<open>
  The truth-value test of the constructor takes an explicit length of zero for a missing
  one: the rest length is then measured.
\<close>

lemma explicit_zero_length_is_measured:
  "rest_length (Bone j1 j2 m (Some 0) nm col h) = calculate_distance j1 j2 h"
  by (simp add: Bone_def truthy_def)




section \<open>The angle constraint\<close>












section \<open>Construction of the skeleton\<close>

lemma joints_create_joints:
  "joints s = [] \<Longrightarrow> joints (create_joints cx cy s) = joint_table"
  by (simp add: create_joints_def new_joint_def joint_table_def)

lemma new_joint_fields:
  "body_mass (new_joint k r j s) = body_mass s"
  "bones (new_joint k r j s) = bones s"
  by (simp_all add: new_joint_def)

lemma create_joints_fields:
  "body_mass (create_joints cx cy s) = body_mass s"
  "bones (create_joints cx cy s) = bones s"
  by (simp_all add: create_joints_def new_joint_fields)

lemma create_bone_ignores_bones:
  "create_bone (s\<lparr>bones := bs\<rparr>) r1 r2 nm col = create_bone s r1 r2 nm col"
  by (simp add: create_bone_def calculate_segment_mass_def)

lemma append_bone_resolved:
  "resolved s (k1, k2, nm) \<Longrightarrow>
   append_bone k1 k2 nm s = Inr (s\<lparr>bones := bones s @ [planned_bone s (k1, k2, nm)]\<rparr>)"
  by (auto simp: resolved_def planned_bone_def append_bone_def then_do_def getitem_def)

lemma planned_bone_ignores_bones:
  "planned_bone (s\<lparr>bones := bs\<rparr>) = planned_bone s"
  by (rule ext) (simp add: planned_bone_def create_bone_ignores_bones split: prod.splits)

lemma resolved_ignores_bones:
  "resolved (s\<lparr>bones := bs\<rparr>) = resolved s"
  by (rule ext) (simp add: resolved_def split: prod.splits)

text \<open>
  Appending never touches the dictionary or the store, so a plan whose names are all
  keys runs to its end and appends one bone per entry, in order.
\<close>

lemma fold_plan:
  "list_all (resolved s) plan \<Longrightarrow>
   foldl (\<lambda>r (k1, k2, nm). then_do r (append_bone k1 k2 nm)) (Inr s) plan =
   Inr (s\<lparr>bones := bones s @ map (planned_bone s) plan\<rparr>)"
proof (induction plan arbitrary: s)
  case Nil
  then show ?case by simp
next
  case (Cons e plan)
  obtain k1 k2 nm where e: "e = (k1, k2, nm)" by (cases e) auto
  from Cons.prems have r: "resolved s (k1, k2, nm)" and rest: "list_all (resolved s) plan"
    by (simp_all add: e)
  let ?s' = "s\<lparr>bones := bones s @ [planned_bone s (k1, k2, nm)]\<rparr>"
  have rest': "list_all (resolved ?s') plan"
    using rest by (simp add: resolved_ignores_bones)
  have pb: "map (planned_bone ?s') plan = map (planned_bone s) plan"
    by (simp add: planned_bone_ignores_bones)
  show ?case
    using Cons.IH [OF rest'] r
    by (simp add: e then_do_def append_bone_resolved pb)
qed

lemma plan_resolved: "joints s = joint_table \<Longrightarrow> list_all (resolved s) bone_plan"
  by (simp add: bone_plan_def resolved_def joint_table_def)

lemma create_bones_built:
  "joints s = joint_table \<Longrightarrow>
   create_bones s = Inr (s\<lparr>bones := bones s @ map (planned_bone s) bone_plan\<rparr>)"
  unfolding create_bones_def by (rule fold_plan) (rule plan_resolved)

lemma mass_planned:
  "mass (planned_bone s (k1, k2, nm)) = calculate_segment_mass s nm"
  by (simp add: planned_bone_def create_bone_def Bone_def Let_def)

lemma name_planned:
  "bone.name (planned_bone s (k1, k2, nm)) = nm"
  by (simp add: planned_bone_def create_bone_def Bone_def Let_def)

text \<open>The constructor never raises, and this is the skeleton it returns.\<close>

lemma HumanSkeleton_built:
  "HumanSkeleton cx cy sc =
     Inr ((create_joints cx cy (attributes sc))
            \<lparr>bones := map (planned_bone (create_joints cx cy (attributes sc))) bone_plan\<rparr>)"
  unfolding HumanSkeleton_def
  by (subst create_bones_built)
     (simp_all add: joints_create_joints create_joints_fields attributes_def)

lemma built_census:
  "\<exists>s. HumanSkeleton cx cy sc = Inr s \<and> joints s = joint_table \<and> body_mass s = 70
     \<and> map bone.name (bones s) = map (\<lambda>(k1, k2, nm). nm) bone_plan
     \<and> map mass (bones s) = map (\<lambda>(k1, k2, nm). calculate_segment_mass s nm) bone_plan"
  unfolding HumanSkeleton_built
  by (simp add: joints_create_joints bone_plan_def mass_planned name_planned
      calculate_segment_mass_def create_joints_fields attributes_def)

lemma built_total_mass:
  "\<exists>s. HumanSkeleton cx cy sc = Inr s \<and> body_mass s = 70
     \<and> map mass (bones s) = map (\<lambda>b. calculate_segment_mass s (bone.name b)) (bones s)
     \<and> sum_list (map mass (bones s)) = 73.43"
proof -
  obtain s where s: "HumanSkeleton cx cy sc = Inr s" "body_mass s = 70"
    "map bone.name (bones s) = map (\<lambda>(k1, k2, nm). nm) bone_plan"
    "map mass (bones s) = map (\<lambda>(k1, k2, nm). calculate_segment_mass s nm) bone_plan"
    using built_census by blast
  have "map (\<lambda>b. calculate_segment_mass s (bone.name b)) (bones s) =
        map (calculate_segment_mass s) (map bone.name (bones s))" by simp
  also have "\<dots> = map mass (bones s)" unfolding s(3) s(4) by (simp add: bone_plan_def)
  finally have each:
    "map mass (bones s) = map (\<lambda>b. calculate_segment_mass s (bone.name b)) (bones s)"
    by simp
  have "sum_list (map mass (bones s)) = 73.43"
    unfolding s(4)
    by (simp add: bone_plan_def calculate_segment_mass_def mass_percentages_def s(2))
  with s(1) s(2) each show ?thesis by blast
qed

text \<open>
  Claim C6, as the code has it. For every \<open>(center_x, center_y, scale)\<close> the
  constructor returns a skeleton whose joint dictionary has exactly 19 entries, under 19
  different names and for 19 different joint objects, and whose bone list has exactly
  18 bones. (The claim counts 18 joints and 17 bones.)
\<close>

theorem skeleton_census:
  "\<exists>s. HumanSkeleton cx cy sc = Inr s
     \<and> length (joints s) = 19 \<and> distinct (map fst (joints s)) \<and> distinct (map snd (joints s))
     \<and> length (bones s) = 18"
proof -
  obtain s where s: "HumanSkeleton cx cy sc = Inr s" "joints s = joint_table"
    "map bone.name (bones s) = map (\<lambda>(k1, k2, nm). nm) bone_plan"
    using built_census by blast
  have "length (bones s) = length (map bone.name (bones s))" by simp
  also have "\<dots> = 18" unfolding s(3) by (simp add: bone_plan_def)
  finally have b: "length (bones s) = 18" .
  have "length joint_table = 19" "distinct (map fst joint_table)" "distinct (map snd joint_table)"
    by (simp_all add: joint_table_def)
  with s b show ?thesis by auto
qed

text \<open>The skeleton the program builds, \<^verbatim>\<open>HumanSkeleton(WIDTH // 2, HEIGHT // 2)\<close>.\<close>

theorem skeleton_census_witness:
  "\<exists>s. HumanSkeleton 600 400 1 = Inr s \<and> length (joints s) = 19 \<and> length (bones s) = 18"
  using skeleton_census [of 600 400 1] by blast

text \<open>It does not have 18 joints and 17 bones.\<close>

theorem skeleton_census_counterexample:
  "\<not> (\<not> isl (HumanSkeleton 600 400 1)
      \<and> length (joints (projr (HumanSkeleton 600 400 1))) = 18
      \<and> length (bones (projr (HumanSkeleton 600 400 1))) = 17)"
proof -
  obtain s where s: "HumanSkeleton 600 400 1 = Inr s" "joints s = joint_table"
    using built_census by blast
  then show ?thesis by (simp add: joint_table_def)
qed

text \<open>
  Claim C5, as the code has it. For every construction of a skeleton the body mass is
  70 and the mass of every bone is the segment mass of its name: 70 times the fraction
  the table lists for the name, and 70 times 0.01 for a name the table does not list.
  The fractions of the 18 bones built add up to 1.049, so the masses of the skeleton as
  built add up to 73.43 (not to the body mass 70, as the claim has it).
\<close>

theorem skeleton_mass:
  "\<exists>s. HumanSkeleton cx cy sc = Inr s \<and> body_mass s = 70
     \<and> map mass (bones s) = map (\<lambda>b. calculate_segment_mass s (bone.name b)) (bones s)
     \<and> (\<forall>nm p. (nm, p) \<in> set mass_percentages \<longrightarrow> calculate_segment_mass s nm = 70 * p)
     \<and> (\<forall>nm. nm \<notin> fst ` set mass_percentages \<longrightarrow> calculate_segment_mass s nm = 70 * 0.01)
     \<and> sum_list (map mass (bones s)) = 73.43"
proof -
  obtain s where s: "HumanSkeleton cx cy sc = Inr s" "body_mass s = 70"
    "map mass (bones s) = map (\<lambda>b. calculate_segment_mass s (bone.name b)) (bones s)"
    "sum_list (map mass (bones s)) = 73.43"
    using built_total_mass by blast
  have d: "distinct (map fst mass_percentages)" by (simp add: mass_percentages_def)
  have listed: "calculate_segment_mass s nm = 70 * p"
    if "(nm, p) \<in> set mass_percentages" for nm p
    using that d by (simp add: calculate_segment_mass_def s(2))
  have other: "calculate_segment_mass s nm = 70 * 0.01"
    if "nm \<notin> fst ` set mass_percentages" for nm
  proof -
    have "map_of mass_percentages nm = None" using that by (simp add: map_of_eq_None_iff)
    then show ?thesis by (simp add: calculate_segment_mass_def s(2))
  qed
  from s listed other show ?thesis by blast
qed

text \<open>
  On the skeleton the program builds: a listed name (\<^verbatim>\<open>left_foot\<close>, 1.45 percent), a
  name that is not listed, and the total.
\<close>

theorem skeleton_mass_witness:
  "\<exists>s. HumanSkeleton 600 400 1 = Inr s \<and> body_mass s = 70
     \<and> calculate_segment_mass s ''left_foot'' = 1.015
     \<and> calculate_segment_mass s ''tail'' = 0.7
     \<and> sum_list (map mass (bones s)) = 73.43"
proof -
  obtain s where s: "HumanSkeleton 600 400 1 = Inr s" "body_mass s = 70"
     "\<forall>nm p. (nm, p) \<in> set mass_percentages \<longrightarrow> calculate_segment_mass s nm = 70 * p"
     "\<forall>nm. nm \<notin> fst ` set mass_percentages \<longrightarrow> calculate_segment_mass s nm = 70 * 0.01"
     "sum_list (map mass (bones s)) = 73.43"
    using skeleton_mass [of 600 400 1] by blast
  have "(''left_foot'', 0.0145) \<in> set mass_percentages" by (simp add: mass_percentages_def)
  then have a: "calculate_segment_mass s ''left_foot'' = 1.015" using s(3) by fastforce
  have "''tail'' \<notin> fst ` set mass_percentages" by (simp add: mass_percentages_def)
  then have b: "calculate_segment_mass s ''tail'' = 0.7" using s(4) by fastforce
  from s a b show ?thesis by blast
qed

text \<open>The bones of the skeleton the program builds do not weigh 70 together.\<close>

theorem skeleton_mass_counterexample:
  "\<not> isl (HumanSkeleton 600 400 1)
   \<and> sum_list (map mass (bones (projr (HumanSkeleton 600 400 1)))) \<noteq> 70"
proof -
  obtain s where s: "HumanSkeleton 600 400 1 = Inr s" "sum_list (map mass (bones s)) = 73.43"
    using built_total_mass by blast
  then show ?thesis by simp
qed

section \<open>The force generators\<close>




lemma table_lookups:
  "map_of joint_table ''head'' = Some 0" "map_of joint_table ''chest'' = Some 2"
  "map_of joint_table ''pelvis'' = Some 4"
  "map_of joint_table ''left_hand'' = Some 7" "map_of joint_table ''right_hand'' = Some 10"
  "map_of joint_table ''left_foot'' = Some 14" "map_of joint_table ''right_foot'' = Some 18"
  by (simp_all add: joint_table_def)














section \<open>The per-frame update\<close>















text \<open>
  A skeleton as built satisfies what the statements about the two force generators
  assume: the names are keys of the dictionary, for different joint objects, and the
  gains are the constructor's.
\<close>

lemma as_built_premises:
  assumes "as_built s"
  shows "map_of (joints s) ''head'' = Some 0" "map_of (joints s) ''chest'' = Some 2"
    "map_of (joints s) ''pelvis'' = Some 4" "map_of (joints s) ''left_hand'' = Some 7"
    "map_of (joints s) ''right_hand'' = Some 10" "map_of (joints s) ''left_foot'' = Some 14"
    "map_of (joints s) ''right_foot'' = Some 18"
    "standing_balance_force s = 100" "posture_force s = 50"
  using assms by (simp_all add: as_built_def table_lookups)



end
